theory Spec2Isabelle
  imports Main
begin

section \<open>Python values used by modality_worklist_scu.py\<close>

text \<open>
  A value of a database row, as the Oracle driver hands it to Python: \<open>None\<close> for SQL
  NULL, a \<open>str\<close>, an \<open>int\<close>, or a \<open>datetime\<close> (year, month, day, hour, minute, second).
  Strings are lists of 8-bit characters: the datasets are declared \<open>ISO_IR 100\<close>
  (Latin-1), and code points above 255 are outside the model.
\<close>

datatype cell = Null | Str string | Num int | DateTime nat nat nat nat nat nat

text \<open>
  The exceptions the handlers can meet. A \<open>DatabaseError\<close> raised by the driver carries
  one error object with a message and a code (the handler unpacks it with
  \<open>error, = e.args\<close>); everything else that derives from \<open>Exception\<close> is caught by the
  generic handlers.
\<close>

datatype exn =
    DatabaseError string int
  | AttributeError
  | TypeError
  | OtherException string

subsection \<open>str(), truthiness, and string methods\<close>

definition digit_char :: "nat \<Rightarrow> char" where
  "digit_char d = char_of (48 + d)"

fun str_nat :: "nat \<Rightarrow> string" where
  "str_nat n = (if n < 10 then [digit_char n] else str_nat (n div 10) @ [digit_char (n mod 10)])"

declare str_nat.simps [simp del]

definition str_int :: "int \<Rightarrow> string" where
  "str_int i = (if i < 0 then CHR ''-'' # str_nat (nat (- i)) else str_nat (nat i))"

text \<open>\<open>str.zfill(width)\<close>: zeros go after a leading sign; a string that is already wide
  enough is returned as it is.\<close>

definition zfill :: "nat \<Rightarrow> string \<Rightarrow> string" where
  "zfill width s =
     (if width \<le> length s then s
      else (case s of
              c # rest \<Rightarrow>
                if c = CHR ''+'' \<or> c = CHR ''-''
                then c # replicate (width - length s) CHR ''0'' @ rest
                else replicate (width - length s) CHR ''0'' @ s
            | [] \<Rightarrow> replicate width CHR ''0''))"

text \<open>\<open>str(x)\<close>, which is also what an f-string field \<open>{x}\<close> inserts.\<close>

fun py_str :: "cell \<Rightarrow> string" where
  "py_str Null = ''None''"
| "py_str (Str s) = s"
| "py_str (Num i) = str_int i"
| "py_str (DateTime y m d hh mm ss) =
     zfill 4 (str_nat y) @ ''-'' @ zfill 2 (str_nat m) @ ''-'' @ zfill 2 (str_nat d) @ '' '' @
     zfill 2 (str_nat hh) @ '':'' @ zfill 2 (str_nat mm) @ '':'' @ zfill 2 (str_nat ss)"

text \<open>Truth value of a cell in \<open>x if x else y\<close>.\<close>

fun truthy :: "cell \<Rightarrow> bool" where
  "truthy Null = False"
| "truthy (Str s) = (s \<noteq> [])"
| "truthy (Num i) = (i \<noteq> 0)"
| "truthy (DateTime y m d hh mm ss) = True"

text \<open>\<open>str.isspace\<close> on one character, for the code points below 256.\<close>

definition isspace :: "char \<Rightarrow> bool" where
  "isspace c =
     (let n = (of_char c :: nat)
      in (9 \<le> n \<and> n \<le> 13) \<or> (28 \<le> n \<and> n \<le> 32) \<or> n = 133 \<or> n = 160)"

text \<open>\<open>s.strip()\<close>: leading, then trailing whitespace removed.\<close>

definition strip :: "string \<Rightarrow> string" where
  "strip s = rev (dropWhile isspace (rev (dropWhile isspace s)))"

text \<open>\<open>s.split()\<close>: the maximal runs of non-whitespace characters, in order. \<open>cur\<close> is
  the token being read.\<close>

fun split_from :: "string \<Rightarrow> string \<Rightarrow> string list" where
  "split_from cur [] = (if cur = [] then [] else [cur])"
| "split_from cur (c # cs) =
     (if isspace c
      then (if cur = [] then split_from [] cs else cur # split_from [] cs)
      else split_from (cur @ [c]) cs)"

definition split :: "string \<Rightarrow> string list" where
  "split s = split_from [] s"

text \<open>\<open>' '.join(parts)\<close>.\<close>

fun join_space :: "string list \<Rightarrow> string" where
  "join_space [] = []"
| "join_space [p] = p"
| "join_space (p # q # ps) = p @ '' '' @ join_space (q # ps)"

text \<open>\<open>s.replace('_', '.')\<close> and \<open>s.replace(':', '')\<close>.\<close>

definition replace_underscore :: "string \<Rightarrow> string" where
  "replace_underscore s = map (\<lambda>c. if c = CHR ''_'' then CHR ''.'' else c) s"

definition remove_colons :: "string \<Rightarrow> string" where
  "remove_colons s = filter (\<lambda>c. c \<noteq> CHR '':'') s"

text \<open>\<open>x.strftime('%Y%m%d')\<close>: defined on a datetime only; any other value has no such
  attribute. The year is written as it is, without padding (the year 999 gives three
  digits); the month and the day are written with two digits.\<close>

fun strftime_Ymd :: "cell \<Rightarrow> exn + string" where
  "strftime_Ymd (DateTime y m d hh mm ss) =
     Inr (str_nat y @ zfill 2 (str_nat m) @ zfill 2 (str_nat d))"
| "strftime_Ymd _ = Inl AttributeError"

text \<open>\<open>x.replace(':', '')\<close> on a cell: a \<open>str\<close> loses its colons; a datetime has a
  \<open>replace\<close> method that rejects these arguments; the other values have no such
  attribute.\<close>

fun cell_remove_colons :: "cell \<Rightarrow> exn + string" where
  "cell_remove_colons (Str s) = Inr (remove_colons s)"
| "cell_remove_colons (DateTime y m d hh mm ss) = Inl TypeError"
| "cell_remove_colons _ = Inl AttributeError"

section \<open>The response builder (body of the loop in handle\_find)\<close>

text \<open>
  Lines 148 to 156: the name is stripped and split on whitespace; with three or more
  parts the last two parts go first, otherwise the stripped name is kept.
  \<open>name_parts[-2:]\<close> and \<open>name_parts[:-2]\<close> are \<open>drop\<close> and \<open>take\<close> at
  \<open>len - 2\<close>.
\<close>

definition format_name :: "string \<Rightarrow> string" where
  "format_name name =
     (let full_name = strip name;
          name_parts = split full_name
      in if 3 \<le> length name_parts
         then (let last_names = join_space (drop (length name_parts - 2) name_parts);
                   first_names = join_space (take (length name_parts - 2) name_parts)
               in last_names @ '' '' @ first_names)
         else full_name)"

text \<open>\<open>row[0].strip()\<close> and the lines after it: only a \<open>str\<close> has the method
  \<open>strip\<close>; any other value raises.\<close>

fun formatted_name :: "cell \<Rightarrow> exn + string" where
  "formatted_name (Str s) = Inr (format_name s)"
| "formatted_name _ = Inl AttributeError"

text \<open>
  One row of the SELECT of lines 100 to 111: a tuple of 21 values, here a record whose
  fields carry the column names in the order of the SELECT list (\<open>row[0]\<close> is
  \<open>PATIENT_NAME\<close>, \<open>row[10]\<close> is \<open>APPOINTMENT_ID\<close>, \<open>row[17]\<close> is
  \<open>PATIENT_ID\<close>, \<open>row[18]\<close> is \<open>AETitle\<close>, ...).
\<close>

record row =
  PATIENT_NAME :: cell
  PERSONAL_ID :: cell
  BENEFACTOR_ID :: cell
  APPOINTMENT_DATE :: cell
  HOUR :: cell
  BIRTHDATE :: cell
  SEX :: cell
  MEDICAL_CENTER_ID :: cell
  SPECIALTY_ID :: cell
  STUDY_DESCRIPTION :: cell
  APPOINTMENT_ID :: cell
  PHYSICIAN_NAME :: cell
  PHYSYCIAN_ID :: cell
  ROOM :: cell
  ROOM_NUMBER :: cell
  ROOM_LETTER :: cell
  MEDICAL_CENTER_NAME :: cell
  PATIENT_ID :: cell
  AETitle :: cell
  ACCOUNT_NUMBER :: cell
  SHIFT :: cell

text \<open>The datasets that the loop fills: \<open>perf_phys\<close>, \<open>sched\<close> and \<open>ds\<close>. An attribute
  assigned straight from a row value keeps that value; a computed one is a string, the
  text that was assigned. The dataset library keeps a text with a backslash as a
  multi-valued element whose pieces are the parts between the backslashes; the model
  keeps the text, and says below where the difference shows in the handler.\<close>

record perf_phys =
  PersonName :: cell
  PersonIdentifier :: string

record sched =
  ScheduledProcedureStepStartDate :: string
  ScheduledProcedureStepStartTime :: string
  ScheduledProcedureStepDescription :: cell
  ScheduledProcedureStepID :: string
  Modality :: cell
  ProcedureStepLocation :: cell
  ScheduledStationAETitle :: cell
  ScheduledPerformingPhysicianSequence :: "perf_phys list"

record dataset =
  SpecificCharacterSet :: string
  PatientID :: string
  PatientName :: string
  PatientBirthDate :: string
  PatientSex :: cell
  PatientComments :: string
  AccessionNumber :: string
  RequestedProcedureID :: string
  RequestedProcedureDescription :: cell
  StudyInstanceUID :: string
  ReferringPhysicianName :: cell
  ScheduledProcedureStepSequence :: "sched list"

subsection \<open>What the dataset library does with the assigned values\<close>

definition backslash :: char where
  "backslash = CHR 0x5C"

text \<open>
  Line 169 does not use \<open>str(row[17])\<close> again: it reads \<open>ds.PatientID\<close> back from the
  dataset. A text without a backslash comes back as the \<open>str\<close> it was, and
  \<open>replace('_', '.')\<close> applies. A text with a backslash comes back as a multi-valued
  element, which has no method \<open>replace\<close>: the call raises.
\<close>

definition patient_id_replace :: "string \<Rightarrow> exn + string" where
  "patient_id_replace patient_id =
     (if backslash \<in> set patient_id then Inl AttributeError
      else Inr (replace_underscore patient_id))"

text \<open>
  Lines 171 and 185 assign a row value to a person-name attribute. The library builds a
  person name from it with string methods: a \<open>str\<close> is accepted, \<open>None\<close> is kept as no
  value, and any other value (an \<open>int\<close>, a \<open>datetime\<close>) raises.
\<close>

fun assign_person_name :: "cell \<Rightarrow> exn + cell" where
  "assign_person_name (Str s) = Inr (Str s)"
| "assign_person_name Null = Inr Null"
| "assign_person_name _ = Inl AttributeError"

text \<open>
  Line 170 assigns the identifier to a UID attribute. The library removes the leading
  and trailing whitespace of a UID, of each piece when the text holds backslashes.
  \<open>split_backslash\<close> gives the pieces, \<open>join_backslash\<close> puts them together again.
\<close>

fun split_backslash :: "string \<Rightarrow> string list" where
  "split_backslash [] = [[]]"
| "split_backslash (c # cs) =
     (if c = backslash then [] # split_backslash cs
      else (case split_backslash cs of t # ts \<Rightarrow> (c # t) # ts | [] \<Rightarrow> [[c]]))"

fun join_backslash :: "string list \<Rightarrow> string" where
  "join_backslash [] = []"
| "join_backslash [p] = p"
| "join_backslash (p # q # ps) = p @ [backslash] @ join_backslash (q # ps)"

definition uid_text :: "string \<Rightarrow> string" where
  "uid_text s = join_backslash (map strip (split_backslash s))"

subsection \<open>The loop body\<close>

text \<open>
  Lines 142 to 189, for one row. The calls that can raise are taken in the order in
  which the source reaches them: \<open>row[0].strip()\<close> (line 148), \<open>row[5].strftime\<close> (line
  159), \<open>ds.PatientID.replace\<close> (line 169), the assignment of the physician's name
  (line 171), \<open>row[3].strftime\<close> (line 175), \<open>row[4].replace\<close> (line 176).
\<close>

definition build :: "row \<Rightarrow> exn + dataset" where
  "build row =
     (let appointment_id_str = py_str (APPOINTMENT_ID row);
          patient_id = py_str (PATIENT_ID row)
      in case formatted_name (PATIENT_NAME row) of
           Inl e \<Rightarrow> Inl e
         | Inr formatted \<Rightarrow>
        (case strftime_Ymd (BIRTHDATE row) of
           Inl e \<Rightarrow> Inl e
         | Inr birth_date \<Rightarrow>
        (case patient_id_replace patient_id of
           Inl e \<Rightarrow> Inl e
         | Inr clean_pid \<Rightarrow>
        (case assign_person_name (if truthy (PHYSICIAN_NAME row) then PHYSICIAN_NAME row
                                  else Str ''Unknown'') of
           Inl e \<Rightarrow> Inl e
         | Inr physician \<Rightarrow>
        (case strftime_Ymd (APPOINTMENT_DATE row) of
           Inl e \<Rightarrow> Inl e
         | Inr start_date \<Rightarrow>
        (case cell_remove_colons (HOUR row) of
           Inl e \<Rightarrow> Inl e
         | Inr start_time \<Rightarrow>
        (let phys = \<lparr> PersonName = physician,
                      PersonIdentifier = (if truthy (PHYSYCIAN_ID row)
                                          then py_str (PHYSYCIAN_ID row) else []) \<rparr>;
             step = \<lparr> ScheduledProcedureStepStartDate = start_date,
                      ScheduledProcedureStepStartTime = start_time,
                      ScheduledProcedureStepDescription = STUDY_DESCRIPTION row,
                      ScheduledProcedureStepID = appointment_id_str,
                      Modality = SPECIALTY_ID row,
                      ProcedureStepLocation = MEDICAL_CENTER_NAME row,
                      ScheduledStationAETitle = AETitle row,
                      ScheduledPerformingPhysicianSequence = [phys] \<rparr>
         in Inr \<lparr> SpecificCharacterSet = ''ISO_IR 100'',
                  PatientID = patient_id,
                  PatientName = formatted @ '' - '' @ py_str (AETitle row),
                  PatientBirthDate = birth_date,
                  PatientSex = SEX row,
                  PatientComments = ''ACCOUNT_NUMBER: '' @ py_str (ACCOUNT_NUMBER row),
                  AccessionNumber = zfill 8 appointment_id_str,
                  RequestedProcedureID = zfill 6 appointment_id_str,
                  RequestedProcedureDescription = STUDY_DESCRIPTION row,
                  StudyInstanceUID =
                    uid_text (''1.2.3.'' @ appointment_id_str @ ''.'' @ clean_pid),
                  ReferringPhysicianName = physician,
                  ScheduledProcedureStepSequence = [step] \<rparr>)))))))"

section \<open>The schedule query (get\_worklist\_from\_db)\<close>

subsection \<open>The database side\<close>

text \<open>
  The WHERE clause is \<open>REGEXP_LIKE(AETitle, '(^|,)' || :aetitle || '(,|$)')\<close>: the
  requestor's title is pasted into the pattern as pattern text. The model evaluates the
  patterns in which every character of the title is an ordinary character (it matches
  itself) or a period (it matches any character but a newline). A title with another
  character that the pattern language treats specially is outside this fragment: for it
  the answer of the database's matcher is a parameter of the model.
\<close>

definition regex_special :: "char \<Rightarrow> bool" where
  "regex_special c = (c = CHR 0x5C \<or> c \<in> set ''^$|?*+()[]{}'')"

definition elem_matches :: "char \<Rightarrow> char \<Rightarrow> bool" where
  "elem_matches p c = (if p = CHR ''.'' then c \<noteq> CHR 0x0A else p = c)"

text \<open>The title's characters matched against the text from its first character on; the
  result is the text left over.\<close>

fun match_elems :: "string \<Rightarrow> string \<Rightarrow> string option" where
  "match_elems [] t = Some t"
| "match_elems (p # ps) [] = None"
| "match_elems (p # ps) (c # cs) = (if elem_matches p c then match_elems ps cs else None)"

text \<open>\<open>(^|,)\<close>: a match begins at the start of the value or right after a comma.
  \<open>after_commas\<close> lists the texts that follow each comma.\<close>

fun after_commas :: "string \<Rightarrow> string list" where
  "after_commas [] = []"
| "after_commas (c # cs) = (if c = CHR '','' then cs # after_commas cs else after_commas cs)"

text \<open>\<open>(,|$)\<close>: the match ends at a comma or at the end of the value.\<close>

definition at_token_end :: "string \<Rightarrow> bool" where
  "at_token_end t = (case t of [] \<Rightarrow> True | c # cs \<Rightarrow> c = CHR '','')"

definition matches_from :: "string \<Rightarrow> string \<Rightarrow> bool" where
  "matches_from aetitle t =
     (case match_elems aetitle t of None \<Rightarrow> False | Some rest \<Rightarrow> at_token_end rest)"

definition regexp_like_fragment :: "string \<Rightarrow> string \<Rightarrow> bool" where
  "regexp_like_fragment source aetitle =
     list_ex (matches_from aetitle) (source # after_commas source)"

text \<open>
  What the calls of the try block meet: each driver call either returns or raises; the
  view holds the rows; \<open>hour_le\<close> is the order the database uses for ORDER BY HOUR ASC
  (it depends on the column's type and the session's collation); \<open>regexp_other\<close> is the
  database's matcher on the patterns outside the fragment above.
\<close>

record db_world =
  makedsn_raises :: "exn option"
  connect_raises :: "exn option"
  cursor_raises :: "exn option"
  execute_raises :: "exn option"
  fetchall_raises :: "exn option"
  RIS_WORKLIST_VIEW :: "row list"
  hour_le :: "cell \<Rightarrow> cell \<Rightarrow> bool"
  regexp_other :: "string \<Rightarrow> string \<Rightarrow> bool"

text \<open>The WHERE clause on one row. The column is a character column: a NULL (Oracle has no
  empty string apart from NULL) never satisfies REGEXP\_LIKE.\<close>

definition where_clause :: "db_world \<Rightarrow> string \<Rightarrow> row \<Rightarrow> bool" where
  "where_clause w aetitle r =
     (case AETitle r of
        Str source \<Rightarrow>
          source \<noteq> [] \<and>
          (if list_ex regex_special aetitle then regexp_other w source aetitle
           else regexp_like_fragment source aetitle)
      | _ \<Rightarrow> False)"

fun insert_by_hour :: "(cell \<Rightarrow> cell \<Rightarrow> bool) \<Rightarrow> row \<Rightarrow> row list \<Rightarrow> row list" where
  "insert_by_hour le r [] = [r]"
| "insert_by_hour le r (x # xs) =
     (if le (HOUR r) (HOUR x) then r # x # xs else x # insert_by_hour le r xs)"

fun order_by_hour :: "(cell \<Rightarrow> cell \<Rightarrow> bool) \<Rightarrow> row list \<Rightarrow> row list" where
  "order_by_hour le [] = []"
| "order_by_hour le (r # rs) = insert_by_hour le r (order_by_hour le rs)"

text \<open>SELECT DISTINCT ... FROM RIS\_WORKLIST\_VIEW WHERE ... ORDER BY HOUR ASC.\<close>

definition select_worklist :: "db_world \<Rightarrow> string \<Rightarrow> row list" where
  "select_worklist w aetitle =
     order_by_hour (hour_le w) (remdups (filter (where_clause w aetitle) (RIS_WORKLIST_VIEW w)))"

subsection \<open>The Python side\<close>

text \<open>What a handler does to the resources it holds, in the order in which it does it.\<close>

datatype event =
    ConnOpened | CursorOpened | CursorClosed | ConnClosed
  | AssocEstablished | FileMetaAdded | AssocReleased

text \<open>The local variables \<open>conn\<close> and \<open>cursor\<close> (\<open>True\<close>: no longer \<open>None\<close>) and the
  events so far.\<close>

record db_locals =
  conn :: bool
  cursor :: bool
  events :: "event list"

text \<open>The try block, lines 75 to 114: the result is the value returned or the exception
  raised, with the locals at that point.\<close>

definition db_try :: "db_world \<Rightarrow> string \<Rightarrow> (exn + row list) \<times> db_locals" where
  "db_try w requestor_ae =
     (case makedsn_raises w of
        Some e \<Rightarrow> (Inl e, \<lparr>conn = False, cursor = False, events = []\<rparr>)
      | None \<Rightarrow>
     (case connect_raises w of
        Some e \<Rightarrow> (Inl e, \<lparr>conn = False, cursor = False, events = []\<rparr>)
      | None \<Rightarrow>
     (case cursor_raises w of
        Some e \<Rightarrow> (Inl e, \<lparr>conn = True, cursor = False, events = [ConnOpened]\<rparr>)
      | None \<Rightarrow>
     (case execute_raises w of
        Some e \<Rightarrow> (Inl e, \<lparr>conn = True, cursor = True, events = [ConnOpened, CursorOpened]\<rparr>)
      | None \<Rightarrow>
     (case fetchall_raises w of
        Some e \<Rightarrow> (Inl e, \<lparr>conn = True, cursor = True, events = [ConnOpened, CursorOpened]\<rparr>)
      | None \<Rightarrow>
          (Inr (select_worklist w requestor_ae),
           \<lparr>conn = True, cursor = True, events = [ConnOpened, CursorOpened]\<rparr>))))))"

text \<open>The two except clauses, lines 116 to 122: both log and return the empty list.\<close>

fun db_except :: "exn + row list \<Rightarrow> exn + row list" where
  "db_except (Inr rows) = Inr rows"
| "db_except (Inl (DatabaseError message code)) = Inr []"
| "db_except (Inl e) = Inr []"

text \<open>The finally clause, lines 123 to 127.\<close>

definition db_finally :: "db_locals \<Rightarrow> db_locals" where
  "db_finally l =
     (let l1 = (if cursor l then l\<lparr>events := events l @ [CursorClosed]\<rparr> else l)
      in if conn l1 then l1\<lparr>events := events l1 @ [ConnClosed]\<rparr> else l1)"

definition get_worklist_from_db :: "db_world \<Rightarrow> string \<Rightarrow> (exn + row list) \<times> event list" where
  "get_worklist_from_db w requestor_ae =
     (case db_try w requestor_ae of
        (outcome, l) \<Rightarrow> (db_except outcome, events (db_finally l)))"

section \<open>The handlers\<close>

text \<open>A response of the Find handler: a status and a dataset or \<open>None\<close>.\<close>

type_synonym response = "int \<times> dataset option"

definition STATUS_SUCCESS :: int where "STATUS_SUCCESS = 0x0000"
definition STATUS_PENDING :: int where "STATUS_PENDING = 0xFF00"

text \<open>The loop of lines 141 to 190: one pending response per row, appended to
  \<open>responses\<close>; an exception in a row leaves the loop and the handler.\<close>

fun find_loop :: "row list \<Rightarrow> response list \<Rightarrow> exn + response list" where
  "find_loop [] responses = Inr responses"
| "find_loop (r # rows) responses =
     (case build r of
        Inl e \<Rightarrow> Inl e
      | Inr ds \<Rightarrow> find_loop rows (responses @ [(STATUS_PENDING, Some ds)]))"

definition handle_find :: "db_world \<Rightarrow> string \<Rightarrow> exn + response list" where
  "handle_find w requestor_ae =
     (case fst (get_worklist_from_db w requestor_ae) of
        Inl e \<Rightarrow> Inl e
      | Inr worklist_entries \<Rightarrow>
          if worklist_entries = [] then Inr [(STATUS_SUCCESS, None)]
          else find_loop worklist_entries [])"

definition handle_echo :: "string \<Rightarrow> int" where
  "handle_echo requestor_ae = 0x0000"

text \<open>
  Modelled from the spec: the protocol engine is an external library and not part of
  the sources. Section 4.3 says of it that each pending response is sent on, that after
  the last one the transaction concludes with a final success status, and that a
  success status given by the handler is the single message of the transaction.
  \<open>engine_find\<close> lists the messages the requestor receives for the handler's responses.
\<close>

fun engine_find :: "response list \<Rightarrow> response list" where
  "engine_find [] = [(STATUS_SUCCESS, None)]"
| "engine_find ((status, ds) # rest) =
     (if status = STATUS_PENDING then (status, ds) # engine_find rest
      else [(status, None)])"

subsection \<open>handle\_store\<close>

text \<open>The status dataset that \<open>send_c_store\<close> returns: its elements by keyword. It is
  false in a condition when it has no element; \<open>status.Status\<close> raises when the element
  is missing.\<close>

type_synonym status_ds = "(string \<times> int) list"

text \<open>What the handler returns: the downstream status dataset itself, or one of its own
  codes.\<close>

datatype store_return = RetStatus status_ds | RetCode int

text \<open>The codes of lines 226, 229 and 231, named as the comments there name them.\<close>

definition Failed_Unable_to_understand :: int where "Failed_Unable_to_understand = 0xC000"
definition Failed_Out_of_Resources :: int where "Failed_Out_of_Resources = 0xC001"
definition Failed_Unable_to_process :: int where "Failed_Unable_to_process = 0xC002"

text \<open>
  What the calls of the try block meet: building the forwarding AE and adding the
  requested context returns or raises; \<open>associate\<close> raises or returns an association whose
  \<open>is_established\<close> is the given truth value; the pushed dataset has a \<open>file_meta\<close> or not;
  \<open>send_c_store\<close> raises or returns the status dataset.
\<close>

record store_world =
  forward_ae_raises :: "exn option"
  associate_result :: "exn + bool"
  has_file_meta :: bool
  send_c_store_result :: "exn + status_ds"

text \<open>The try block, lines 203 to 226: an exception, a returned value, or \<open>None\<close> when
  control leaves the block without a return.\<close>

definition store_try :: "store_world \<Rightarrow> (exn + store_return option) \<times> event list" where
  "store_try w =
     (case forward_ae_raises w of
        Some e \<Rightarrow> (Inl e, [])
      | None \<Rightarrow>
     (case associate_result w of
        Inl e \<Rightarrow> (Inl e, [])
      | Inr is_established \<Rightarrow>
          if is_established
          then (let ev = AssocEstablished # (if has_file_meta w then [] else [FileMetaAdded])
                in case send_c_store_result w of
                     Inl e \<Rightarrow> (Inl e, ev)
                   | Inr status \<Rightarrow>
                       if status \<noteq> []
                       then (case map_of status ''Status'' of
                               None \<Rightarrow> (Inl AttributeError, ev @ [AssocReleased])
                             | Some code \<Rightarrow> (Inr (Some (RetStatus status)), ev @ [AssocReleased]))
                       else (Inr (Some (RetCode Failed_Out_of_Resources)), ev @ [AssocReleased]))
          else (Inr None, [])))"

text \<open>Lines 227 to 231: the except clause and the return after the try statement.\<close>

definition handle_store :: "store_world \<Rightarrow> store_return \<times> event list" where
  "handle_store w =
     (case store_try w of
        (Inl e, ev) \<Rightarrow> (RetCode Failed_Unable_to_process, ev)
      | (Inr (Some ret), ev) \<Rightarrow> (ret, ev)
      | (Inr None, ev) \<Rightarrow> (RetCode Failed_Unable_to_understand, ev))"

section \<open>Notions used to state the properties\<close>


definition isdigit :: "char \<Rightarrow> bool" where
  "isdigit c = (c \<in> set ''0123456789'')"

fun is_str :: "cell \<Rightarrow> bool" where
  "is_str (Str s) = True"
| "is_str _ = False"

fun is_datetime :: "cell \<Rightarrow> bool" where
  "is_datetime (DateTime y m d hh mm ss) = True"
| "is_datetime _ = False"

text \<open>The rows on which no call of the loop body raises: the patient name and the hour
  are strings, the two dates are datetimes, the text of the patient identifier holds no
  backslash, and the physician's name is a string or a value that counts as false
  (NULL, zero), for which the placeholder is used.\<close>

definition well_formed_row :: "row \<Rightarrow> bool" where
  "well_formed_row r =
     (is_str (PATIENT_NAME r) \<and> is_datetime (BIRTHDATE r) \<and>
      backslash \<notin> set (py_str (PATIENT_ID r)) \<and>
      (is_str (PHYSICIAN_NAME r) \<or> \<not> truthy (PHYSICIAN_NAME r)) \<and>
      is_datetime (APPOINTMENT_DATE r) \<and> is_str (HOUR r))"

text \<open>The whole tokens of a comma-separated list, as the specification speaks of them:
  the pieces between the commas, empty pieces included.\<close>

fun comma_tokens :: "string \<Rightarrow> string list" where
  "comma_tokens [] = [[]]"
| "comma_tokens (c # cs) =
     (if c = CHR '','' then [] # comma_tokens cs
      else (case comma_tokens cs of t # ts \<Rightarrow> (c # t) # ts | [] \<Rightarrow> [[c]]))"

text \<open>A title made of ordinary characters only: no comma, no period, and no other
  character that is special in a pattern.\<close>

definition plain_title :: "string \<Rightarrow> bool" where
  "plain_title aetitle =
     list_all (\<lambda>c. \<not> regex_special c \<and> c \<noteq> CHR ''.'' \<and> c \<noteq> CHR '','') aetitle"

text \<open>One of the five driver calls of the try block raises.\<close>

definition db_call_raises :: "db_world \<Rightarrow> bool" where
  "db_call_raises w =
     (makedsn_raises w \<noteq> None \<or> connect_raises w \<noteq> None \<or> cursor_raises w \<noteq> None \<or>
      execute_raises w \<noteq> None \<or> fetchall_raises w \<noteq> None)"

text \<open>An exception is raised inside the try block of \<open>handle_store\<close>.\<close>

definition store_raises :: "store_world \<Rightarrow> bool" where
  "store_raises w =
     (forward_ae_raises w \<noteq> None \<or> isl (associate_result w) \<or>
      (associate_result w = Inr True \<and>
       (case send_c_store_result w of
          Inl e \<Rightarrow> True
        | Inr status \<Rightarrow> status \<noteq> [] \<and> map_of status ''Status'' = None)))"

subsection \<open>Concrete rows and environments\<close>

definition row_42 :: row where
  "row_42 =
     \<lparr> PATIENT_NAME = Str ''ANA LUISA PEREZ LOPEZ '', PERSONAL_ID = Null, BENEFACTOR_ID = Null,
       APPOINTMENT_DATE = DateTime 2024 3 5 0 0 0, HOUR = Str ''08:30'',
       BIRTHDATE = DateTime 1980 12 1 0 0 0, SEX = Str ''F'', MEDICAL_CENTER_ID = Num 1,
       SPECIALTY_ID = Str ''CR'', STUDY_DESCRIPTION = Str ''CHEST'', APPOINTMENT_ID = Num 42,
       PHYSICIAN_NAME = Null, PHYSYCIAN_ID = Null, ROOM = Null, ROOM_NUMBER = Null,
       ROOM_LETTER = Null, MEDICAL_CENTER_NAME = Str ''CENTRAL'', PATIENT_ID = Str ''P_12_3'',
       AETitle = Str ''AE1,AE2'', ACCOUNT_NUMBER = Num 77, SHIFT = Null \<rparr>"

definition row_43 :: row where
  "row_43 =
     row_42\<lparr> APPOINTMENT_ID := Num 43, HOUR := Str ''09:00'', PHYSICIAN_NAME := Str ''DR RUIZ'' \<rparr>"

definition row_trailing_space :: row where
  "row_trailing_space = row_42\<lparr> PATIENT_ID := Str ''P_1 '' \<rparr>"

definition row_null_name :: row where
  "row_null_name = row_42\<lparr> PATIENT_NAME := Null \<rparr>"

text \<open>A database on which every call returns, with the given rows in the view.\<close>

definition healthy_db :: "row list \<Rightarrow> db_world" where
  "healthy_db view =
     \<lparr> makedsn_raises = None, connect_raises = None, cursor_raises = None,
       execute_raises = None, fetchall_raises = None, RIS_WORKLIST_VIEW = view,
       hour_le = (\<lambda>a b. True), regexp_other = (\<lambda>source aetitle. False) \<rparr>"

definition db_connect_refused :: db_world where
  "db_connect_refused =
     (healthy_db [row_42])\<lparr> connect_raises := Some (DatabaseError ''ORA-12541'' 12541) \<rparr>"

text \<open>A downstream node that accepts the association and answers the transfer with the
  given status dataset; one that rejects the association; one whose transfer raises.\<close>

definition store_ok :: "status_ds \<Rightarrow> store_world" where
  "store_ok status =
     \<lparr> forward_ae_raises = None, associate_result = Inr True, has_file_meta = False,
       send_c_store_result = Inr status \<rparr>"

definition store_rejected :: store_world where
  "store_rejected = (store_ok [])\<lparr> associate_result := Inr False \<rparr>"

definition store_send_raises :: store_world where
  "store_send_raises =
     (store_ok [])\<lparr> send_c_store_result := Inl (OtherException ''ValueError'') \<rparr>"

section \<open>Name normalisation\<close>

subsection \<open>Facts about split, strip and join\<close>

lemma split_from_spaces: "list_all isspace t \<Longrightarrow> split_from cur t = split_from cur []"
proof (induction t arbitrary: cur)
  case Nil
  show ?case by simp
next
  case (Cons c t)
  then have "split_from [] t = []" by simp
  with Cons.prems show ?case by simp
qed

lemma split_from_append_spaces:
  "list_all isspace t \<Longrightarrow> split_from cur (x @ t) = split_from cur x"
  by (induction x arbitrary: cur) (simp_all add: split_from_spaces)


lemma split_dropWhile: "split_from [] (dropWhile isspace s) = split_from [] s"
  by (induction s) simp_all

lemma rstrip_decomp: "rev (dropWhile P (rev s)) @ rev (takeWhile P (rev s)) = s"
proof -
  have "rev (takeWhile P (rev s) @ dropWhile P (rev s)) = s"
    by simp
  then show ?thesis by (simp only: rev_append)
qed

lemma split_rstrip: "split_from cur (rev (dropWhile isspace (rev s))) = split_from cur s"
proof -
  have sp: "list_all isspace (rev (takeWhile isspace (rev s)))"
    by (simp add: list_all_iff) (metis set_takeWhileD)
  have "split_from cur s =
        split_from cur (rev (dropWhile isspace (rev s)) @ rev (takeWhile isspace (rev s)))"
    by (simp only: rstrip_decomp)
  also have "\<dots> = split_from cur (rev (dropWhile isspace (rev s)))"
    using sp by (rule split_from_append_spaces)
  finally show ?thesis by simp
qed

text \<open>Stripping a name does not change its tokens.\<close>

lemma split_strip: "split (strip s) = split s"
  by (simp add: split_def strip_def split_rstrip split_dropWhile)







lemma dropWhile_hd: "xs = [] \<or> \<not> P (hd xs) \<Longrightarrow> dropWhile P xs = xs"
  by (cases xs) auto

lemma strip_id:
  "name = [] \<or> (\<not> isspace (hd name) \<and> \<not> isspace (last name)) \<Longrightarrow> strip name = name"
proof (cases name)
  case Nil
  then show ?thesis by (simp add: strip_def)
next
  case (Cons c cs)
  assume "name = [] \<or> (\<not> isspace (hd name) \<and> \<not> isspace (last name))"
  with Cons have h: "\<not> isspace c" and l: "\<not> isspace (last name)" by auto
  from h Cons have d: "dropWhile isspace name = name" by simp
  have "hd (rev name) = last name" using Cons by (simp add: hd_rev)
  with l have "dropWhile isspace (rev name) = rev name"
    by (intro dropWhile_hd) simp
  with d show ?thesis by (simp add: strip_def)
qed

lemma strip_ends:
  "strip s \<noteq> [] \<Longrightarrow> \<not> isspace (hd (strip s)) \<and> \<not> isspace (last (strip s))"
proof -
  assume ne: "strip s \<noteq> []"
  let ?d = "dropWhile isspace s"
  let ?r = "dropWhile isspace (rev ?d)"
  have st: "strip s = rev ?r" by (simp add: strip_def)
  from ne st have rne: "?r \<noteq> []" by simp
  then have "\<not> isspace (hd ?r)" by (rule hd_dropWhile)
  moreover have "last (strip s) = hd ?r" using rne st by (simp add: last_rev)
  ultimately have l: "\<not> isspace (last (strip s))" by simp
  have dec: "?d = strip s @ rev (takeWhile isspace (rev ?d))"
    using rstrip_decomp[of isspace ?d] st by simp
  with ne have dne: "?d \<noteq> []" by (metis append_is_Nil_conv)
  then have "\<not> isspace (hd ?d)" by (rule hd_dropWhile)
  moreover have "hd ?d = hd (strip s)" using dec ne by (metis hd_append2)
  ultimately show ?thesis using l by simp
qed

lemma strip_eq_iff:
  "strip name = name \<longleftrightarrow> name = [] \<or> (\<not> isspace (hd name) \<and> \<not> isspace (last name))"
  using strip_id[of name] strip_ends[of name] by (cases "name = []") auto

lemma split_ABC: "split ''A B C'' = [''A''] @ [''B'', ''C'']"
  by code_simp

lemma split_AB: "length (split ''A B'') < 3"
  by code_simp

lemma strip_AB: "strip ''A B'' = ''A B''"
  by code_simp

subsection \<open>C6\<close>

text \<open>
  C6, as the code has it. The name is split on whitespace. When the split gives three or
  more tokens, the result is the last two tokens joined by a space, a space, and the
  preceding tokens joined by spaces. When it gives fewer than three tokens, the result
  is the name with its leading and trailing whitespace removed; it is the name itself
  exactly when the name neither begins nor ends with whitespace.
\<close>

theorem name_normalization:
  "(\<forall>given s1 s2. split name = given @ [s1, s2] \<and> given \<noteq> [] \<longrightarrow>
       format_name name = s1 @ '' '' @ s2 @ '' '' @ join_space given) \<and>
   (length (split name) < 3 \<longrightarrow>
       format_name name = strip name \<and>
       (format_name name = name \<longleftrightarrow>
          name = [] \<or> (\<not> isspace (hd name) \<and> \<not> isspace (last name))))"
proof (intro conjI allI impI)
  fix given s1 s2
  assume a: "split name = given @ [s1, s2] \<and> given \<noteq> []"
  then have len: "3 \<le> length (split name)" by (cases given) auto
  from a have d: "drop (length (split name) - 2) (split name) = [s1, s2]"
    and t: "take (length (split name) - 2) (split name) = given" by auto
  show "format_name name = s1 @ '' '' @ s2 @ '' '' @ join_space given"
    using len d t by (simp add: format_name_def Let_def split_strip)
next
  assume "length (split name) < 3"
  then show s: "format_name name = strip name"
    by (simp add: format_name_def Let_def split_strip)
  show "format_name name = name \<longleftrightarrow>
          name = [] \<or> (\<not> isspace (hd name) \<and> \<not> isspace (last name))"
    unfolding s by (rule strip_eq_iff)
qed

text \<open>The two names of the specification: \<open>A B C\<close> becomes \<open>B C A\<close>, \<open>A B\<close> stays.\<close>

theorem name_normalization_witness:
  "format_name ''A B C'' = ''B C A'' \<and> format_name ''A B'' = ''A B''"
  using name_normalization[of "''A B C''"] name_normalization[of "''A B''"]
    split_ABC split_AB strip_AB
  by simp

text \<open>A name of one token that begins with a space does not pass through unchanged.\<close>

theorem name_unchanged_counterexample:
  "length (split '' A'') < 3 \<and> format_name '' A'' \<noteq> '' A''"
  by code_simp

section \<open>The built dataset\<close>

lemma build_Inr:
  assumes "build r = Inr ds"
  shows "\<exists>name. PATIENT_NAME r = Str name \<and>
           PatientName ds = format_name name @ '' - '' @ py_str (AETitle r)"
    and "PatientID ds = py_str (PATIENT_ID r)"
    and "AccessionNumber ds = zfill 8 (py_str (APPOINTMENT_ID r))"
    and "RequestedProcedureID ds = zfill 6 (py_str (APPOINTMENT_ID r))"
    and "StudyInstanceUID ds =
           uid_text (''1.2.3.'' @ py_str (APPOINTMENT_ID r) @ ''.'' @
                     replace_underscore (py_str (PATIENT_ID r)))"
    and "backslash \<notin> set (py_str (PATIENT_ID r))"
  using assms
  by (cases "PATIENT_NAME r";
      auto simp: build_def Let_def patient_id_replace_def split: sum.splits if_splits)+

text \<open>Each call of the loop body that can raise, and when it does.\<close>

lemma isl_formatted_name: "isl (formatted_name c) \<longleftrightarrow> \<not> is_str c"
  by (cases c) simp_all

lemma isl_strftime_Ymd: "isl (strftime_Ymd c) \<longleftrightarrow> \<not> is_datetime c"
  by (cases c) simp_all

lemma isl_cell_remove_colons: "isl (cell_remove_colons c) \<longleftrightarrow> \<not> is_str c"
  by (cases c) simp_all

lemma isl_patient_id_replace: "isl (patient_id_replace s) \<longleftrightarrow> backslash \<in> set s"
  by (simp add: patient_id_replace_def)

lemma isl_assign_person_name:
  "isl (assign_person_name (if truthy c then c else Str ''Unknown'')) \<longleftrightarrow>
     \<not> (is_str c \<or> \<not> truthy c)"
  by (cases c) simp_all

text \<open>The builder returns a dataset exactly on the well-formed rows; on any other row it
  raises.\<close>

lemma build_ok_iff: "\<not> isl (build r) \<longleftrightarrow> well_formed_row r"
  using isl_formatted_name[of "PATIENT_NAME r"] isl_strftime_Ymd[of "BIRTHDATE r"]
    isl_patient_id_replace[of "py_str (PATIENT_ID r)"]
    isl_assign_person_name[of "PHYSICIAN_NAME r"]
    isl_strftime_Ymd[of "APPOINTMENT_DATE r"] isl_cell_remove_colons[of "HOUR r"]
  unfolding build_def well_formed_row_def Let_def
  by (auto split: sum.splits)

text \<open>Three rows that differ from \<open>row_42\<close> in one value: a patient identifier with a
  backslash and a physician's name that is a number make the builder raise; a birth
  date in the year 999 is written with seven digits.\<close>

lemma build_raises_examples:
  "build (row_42\<lparr> PATIENT_ID := Str [CHR ''P'', backslash, CHR ''1'', CHR ''_'', CHR ''2''] \<rparr>) =
     Inl AttributeError \<and>
   build (row_42\<lparr> PHYSICIAN_NAME := Num 5 \<rparr>) = Inl AttributeError \<and>
   PatientBirthDate (projr (build (row_42\<lparr> BIRTHDATE := DateTime 999 1 2 0 0 0 \<rparr>))) =
     ''9990102''"
  by code_simp

lemma build_row_42: "build row_42 = Inr (projr (build row_42))"
  by code_simp

lemma appointment_id_row_42: "py_str (APPOINTMENT_ID row_42) = ''42''"
  by code_simp

subsection \<open>Decimal digits and zfill\<close>

lemma isdigit_digit_char: "d < 10 \<Longrightarrow> isdigit (digit_char d)"
proof -
  assume "d < 10"
  moreover have "list_all (\<lambda>d. isdigit (digit_char d)) [0..<10]" by code_simp
  ultimately show ?thesis by (simp add: list_all_iff)
qed

lemma str_nat_digits: "list_all isdigit (str_nat n)"
proof (induction n rule: str_nat.induct)
  case (1 n)
  show ?case
  proof (cases "n < 10")
    case True
    then show ?thesis by (subst str_nat.simps) (simp add: isdigit_digit_char)
  next
    case False
    with 1 show ?thesis by (subst str_nat.simps) (simp add: isdigit_digit_char)
  qed
qed

lemma length_str_nat: "0 < k \<Longrightarrow> n < 10 ^ k \<Longrightarrow> length (str_nat n) \<le> k"
proof (induction k arbitrary: n)
  case 0
  then show ?case by simp
next
  case (Suc k)
  show ?case
  proof (cases "n < 10")
    case True
    then show ?thesis by (subst str_nat.simps) simp
  next
    case False
    with Suc.prems have k: "0 < k" by (cases k) auto
    from Suc.prems have "n div 10 < 10 ^ k" by (simp add: less_mult_imp_div_less mult.commute)
    with k Suc.IH have "length (str_nat (n div 10)) \<le> k" by blast
    with False show ?thesis by (subst str_nat.simps) simp
  qed
qed

text \<open>A non-negative appointment number below \<open>10 ^ k\<close> is written with at most \<open>k\<close>
  digits and nothing else.\<close>

lemma numeric_id_digits:
  "0 \<le> n \<Longrightarrow> n < 10 ^ k \<Longrightarrow> 0 < k \<Longrightarrow>
     list_all isdigit (py_str (Num n)) \<and> length (py_str (Num n)) \<le> k"
proof -
  assume a: "0 \<le> n" "n < 10 ^ k" "0 < k"
  then have "nat n < 10 ^ k" by (simp add: nat_less_iff)
  with a show ?thesis by (simp add: str_int_def str_nat_digits length_str_nat)
qed




subsection \<open>C7\<close>



subsection \<open>C9\<close>

lemma split_backslash_none: "backslash \<notin> set s \<Longrightarrow> split_backslash s = [s]"
  by (induction s) auto

lemma uid_text_no_backslash: "backslash \<notin> set s \<Longrightarrow> uid_text s = strip s"
  by (simp add: uid_text_def split_backslash_none)

lemma replace_underscore_backslash:
  "backslash \<in> set (replace_underscore s) \<longleftrightarrow> backslash \<in> set s"
  by (auto simp: replace_underscore_def backslash_def)

lemma replace_underscore_nth:
  "i < length s \<Longrightarrow> replace_underscore s ! i = (if s ! i = CHR ''_'' then CHR ''.'' else s ! i)"
  by (simp add: replace_underscore_def)

lemma replace_underscore_last_space:
  "s \<noteq> [] \<Longrightarrow> isspace (last (replace_underscore s)) \<longleftrightarrow> isspace (last s)"
  by (auto simp: replace_underscore_def last_map isspace_def)

text \<open>
  C9, as the code has it. On a row for which the builder returns a dataset, the text of
  the patient identifier holds no backslash, and the study identifier is made from the
  fixed root \<open>1.2.3\<close>, the appointment id and the patient identifier, joined by
  periods, where the patient identifier has each underscore replaced by a period and
  every other character kept. The dataset keeps this text with its trailing whitespace
  removed (piece by piece when the appointment id holds a backslash). So the study
  identifier is the joined text itself when the appointment id holds no backslash and
  the patient identifier does not end with whitespace.
\<close>

theorem study_uid_synthesis:
  assumes "build r = Inr ds"
  shows "StudyInstanceUID ds =
           uid_text (''1.2.3'' @ ''.'' @ py_str (APPOINTMENT_ID r) @ ''.'' @
                     replace_underscore (py_str (PATIENT_ID r))) \<and>
         (backslash \<notin> set (py_str (APPOINTMENT_ID r)) \<longrightarrow>
            StudyInstanceUID ds =
              strip (''1.2.3'' @ ''.'' @ py_str (APPOINTMENT_ID r) @ ''.'' @
                     replace_underscore (py_str (PATIENT_ID r)))) \<and>
         (backslash \<notin> set (py_str (APPOINTMENT_ID r)) \<and>
          (py_str (PATIENT_ID r) = [] \<or> \<not> isspace (last (py_str (PATIENT_ID r)))) \<longrightarrow>
            StudyInstanceUID ds =
              ''1.2.3'' @ ''.'' @ py_str (APPOINTMENT_ID r) @ ''.'' @
              replace_underscore (py_str (PATIENT_ID r))) \<and>
         length (replace_underscore (py_str (PATIENT_ID r))) = length (py_str (PATIENT_ID r)) \<and>
         (\<forall>i < length (py_str (PATIENT_ID r)).
            replace_underscore (py_str (PATIENT_ID r)) ! i =
              (if py_str (PATIENT_ID r) ! i = CHR ''_'' then CHR ''.''
               else py_str (PATIENT_ID r) ! i))"
proof -
  let ?A = "py_str (APPOINTMENT_ID r)"
  let ?P = "py_str (PATIENT_ID r)"
  let ?C = "''1.2.3'' @ ''.'' @ ?A @ ''.'' @ replace_underscore ?P"
  have u: "StudyInstanceUID ds = uid_text ?C"
    using build_Inr(5)[OF assms] by simp
  have pb: "backslash \<notin> set (replace_underscore ?P)"
    using build_Inr(6)[OF assms] by (simp add: replace_underscore_backslash)
  have s: "StudyInstanceUID ds = strip ?C" if "backslash \<notin> set ?A"
  proof -
    from that pb have "backslash \<notin> set ?C" by (auto simp: backslash_def)
    then show ?thesis unfolding u by (rule uid_text_no_backslash)
  qed
  have e: "StudyInstanceUID ds = ?C"
    if "backslash \<notin> set ?A" and "?P = [] \<or> \<not> isspace (last ?P)"
  proof -
    have h: "\<not> isspace (hd ?C)" by (simp add: isspace_def)
    have l: "\<not> isspace (last ?C)"
    proof (cases "?P = []")
      case True
      then show ?thesis by (simp add: replace_underscore_def isspace_def)
    next
      case False
      then have "replace_underscore ?P \<noteq> []" by (simp add: replace_underscore_def)
      then have "last ?C = last (replace_underscore ?P)" by simp
      with False that(2) show ?thesis by (simp add: replace_underscore_last_space)
    qed
    from h l have "strip ?C = ?C" by (intro strip_id) simp
    with s[OF that(1)] show ?thesis by simp
  qed
  have n: "length (replace_underscore ?P) = length ?P" by (simp add: replace_underscore_def)
  from u s e n show ?thesis by (simp add: replace_underscore_nth)
qed

theorem study_uid_synthesis_witness:
  "StudyInstanceUID (projr (build row_42)) = ''1.2.3.42.P.12.3''"
proof -
  have p: "replace_underscore ''P_12_3'' = ''P.12.3''" by code_simp
  have b: "backslash \<notin> set ''42''" by (simp add: backslash_def)
  have q: "py_str (PATIENT_ID row_42) = ''P_12_3''" by (simp add: row_42_def)
  have sp: "\<not> isspace CHR ''3''" by (simp add: isspace_def)
  show ?thesis
    using study_uid_synthesis[OF build_row_42] b sp
    by (simp add: appointment_id_row_42 p q) metis
qed

text \<open>A patient identifier that ends with a space: the dataset is built, and its study
  identifier is not the joined text, which ends with that space.\<close>

theorem study_uid_trailing_space_counterexample:
  "\<not> isl (build row_trailing_space) \<and>
   py_str (APPOINTMENT_ID row_trailing_space) = ''42'' \<and>
   replace_underscore (py_str (PATIENT_ID row_trailing_space)) = ''P.1 '' \<and>
   StudyInstanceUID (projr (build row_trailing_space)) = ''1.2.3.42.P.1'' \<and>
   StudyInstanceUID (projr (build row_trailing_space)) \<noteq>
     ''1.2.3'' @ ''.'' @ ''42'' @ ''.'' @ ''P.1 ''"
  by code_simp


subsection \<open>C10\<close>




section \<open>The schedule query\<close>

lemma db_except_empty: "db_except (Inl e) = Inr []"
  by (cases e) simp_all

lemma db_try_raises: "db_call_raises w \<Longrightarrow> \<exists>e. fst (db_try w ae) = Inl e"
  by (auto simp: db_call_raises_def db_try_def split: option.splits)

lemma db_try_returns: "\<not> db_call_raises w \<Longrightarrow> fst (db_try w ae) = Inr (select_worklist w ae)"
  by (auto simp: db_call_raises_def db_try_def split: option.splits)

lemma get_worklist_result:
  "fst (get_worklist_from_db w ae) =
     (if db_call_raises w then Inr [] else Inr (select_worklist w ae))"
proof (cases "db_call_raises w")
  case True
  then obtain e where "fst (db_try w ae) = Inl e" using db_try_raises by blast
  with True show ?thesis
    by (simp add: get_worklist_from_db_def split_beta db_except_empty)
next
  case False
  then show ?thesis
    by (simp add: get_worklist_from_db_def split_beta db_try_returns)
qed

text \<open>The query always returns a list: no exception of a driver call leaves it.\<close>

lemma get_worklist_never_raises: "\<exists>rows. fst (get_worklist_from_db w ae) = Inr rows"
  by (simp add: get_worklist_result)

text \<open>The events of the query are balanced: what was opened is closed, the cursor before
  the connection.\<close>

lemma db_events:
  "snd (get_worklist_from_db w ae) \<in>
     {[], [ConnOpened, ConnClosed], [ConnOpened, CursorOpened, CursorClosed, ConnClosed]}"
  by (auto simp: get_worklist_from_db_def db_try_def db_finally_def split: option.splits)

lemma db_resources_released:
  "count_list (snd (get_worklist_from_db w ae)) ConnClosed =
     count_list (snd (get_worklist_from_db w ae)) ConnOpened \<and>
   count_list (snd (get_worklist_from_db w ae)) CursorClosed =
     count_list (snd (get_worklist_from_db w ae)) CursorOpened"
  using db_events[of w ae] by auto

subsection \<open>C3\<close>

text \<open>
  C3. When a driver call of the query raises (whatever the exception), the query returns
  the empty list and does not raise. The caller sees what it sees for a database that
  works and has no matching row: the same value of the query, and the same answer of
  the Find handler.
\<close>

theorem query_failure_is_empty_result:
  assumes "db_call_raises w"
  shows "fst (get_worklist_from_db w ae) = Inr [] \<and>
         handle_find w ae = Inr [(STATUS_SUCCESS, None)] \<and>
         (\<forall>w'. \<not> db_call_raises w' \<and> select_worklist w' ae = [] \<longrightarrow>
            fst (get_worklist_from_db w ae) = fst (get_worklist_from_db w' ae) \<and>
            handle_find w ae = handle_find w' ae)"
  using assms by (simp add: get_worklist_result handle_find_def)

theorem query_failure_is_empty_result_witness:
  "fst (get_worklist_from_db db_connect_refused ''AE1'') = Inr [] \<and>
   fst (get_worklist_from_db db_connect_refused ''AE1'') =
     fst (get_worklist_from_db (healthy_db []) ''AE1'') \<and>
   handle_find db_connect_refused ''AE1'' = handle_find (healthy_db []) ''AE1''"
proof -
  have a: "db_call_raises db_connect_refused"
    by (simp add: db_call_raises_def db_connect_refused_def healthy_db_def)
  have b: "\<not> db_call_raises (healthy_db []) \<and> select_worklist (healthy_db []) ''AE1'' = []"
    by (simp add: db_call_raises_def healthy_db_def select_worklist_def)
  show ?thesis
    using query_failure_is_empty_result[OF a, of "''AE1''"] b by metis
qed

subsection \<open>The matching rule\<close>

lemma comma_tokens_nonempty: "comma_tokens s \<noteq> []"
  by (induction s) (auto split: list.splits)

lemma hd_comma_tokens_Cons:
  "hd (comma_tokens (c # cs)) = (if c = CHR '','' then [] else c # hd (comma_tokens cs))"
  using comma_tokens_nonempty[of cs] by (cases "comma_tokens cs") auto

lemma tl_comma_tokens_Cons:
  "tl (comma_tokens (c # cs)) = (if c = CHR '','' then comma_tokens cs else tl (comma_tokens cs))"
  using comma_tokens_nonempty[of cs] by (cases "comma_tokens cs") auto

text \<open>The tokens of a list are the first tokens of the list itself and of the texts after
  each comma.\<close>

lemma comma_tokens_starts:
  "comma_tokens s = map (\<lambda>u. hd (comma_tokens u)) (s # after_commas s)"
proof (induction s)
  case Nil
  show ?case by simp
next
  case (Cons c cs)
  have "comma_tokens (c # cs) = hd (comma_tokens (c # cs)) # tl (comma_tokens (c # cs))"
    using comma_tokens_nonempty[of "c # cs"] by simp
  also have "tl (comma_tokens (c # cs)) = map (\<lambda>u. hd (comma_tokens u)) (after_commas (c # cs))"
  proof -
    from Cons.IH have t: "tl (comma_tokens cs) = map (\<lambda>u. hd (comma_tokens u)) (after_commas cs)"
      by (metis list.sel(3) list.simps(9))
    show ?thesis
      using Cons.IH t by (simp add: tl_comma_tokens_Cons del: comma_tokens.simps)
  qed
  finally show ?case by (simp del: comma_tokens.simps)
qed

lemma match_elems_literal:
  "CHR ''.'' \<notin> set aetitle \<Longrightarrow> match_elems aetitle t = Some rest \<longleftrightarrow> t = aetitle @ rest"
proof (induction aetitle t rule: match_elems.induct)
  case (1 t)
  show ?case by auto
next
  case (2 p ps)
  show ?case by simp
next
  case (3 p ps c cs)
  then show ?case by (auto simp: elem_matches_def)
qed

lemma matches_from_literal:
  "CHR ''.'' \<notin> set aetitle \<Longrightarrow>
     matches_from aetitle t \<longleftrightarrow> (\<exists>rest. t = aetitle @ rest \<and> at_token_end rest)"
proof -
  assume d: "CHR ''.'' \<notin> set aetitle"
  have "matches_from aetitle t \<longleftrightarrow>
        (\<exists>rest. match_elems aetitle t = Some rest \<and> at_token_end rest)"
    by (cases "match_elems aetitle t") (simp_all add: matches_from_def)
  then show ?thesis by (simp add: match_elems_literal[OF d])
qed

lemma first_token_iff:
  "CHR '','' \<notin> set aetitle \<Longrightarrow>
     (\<exists>rest. t = aetitle @ rest \<and> at_token_end rest) \<longleftrightarrow> hd (comma_tokens t) = aetitle"
proof (induction t arbitrary: aetitle)
  case Nil
  show ?case by (auto simp: at_token_end_def)
next
  case (Cons c cs)
  show ?case
  proof (cases aetitle)
    case Nil
    then show ?thesis
      by (auto simp: at_token_end_def hd_comma_tokens_Cons simp del: comma_tokens.simps)
  next
    case (Cons a as)
    with Cons.prems have "CHR '','' \<notin> set as" and "a \<noteq> CHR '',''" by auto
    with Cons.IH[of as] Cons show ?thesis
      by (auto simp: hd_comma_tokens_Cons simp del: comma_tokens.simps)
  qed
qed

text \<open>For a title of ordinary characters the pattern does what the log message of line
  112 says: it matches exactly the lists of which the title is a whole token.\<close>

lemma plain_title_matches_whole_token:
  assumes "plain_title aetitle"
  shows "regexp_like_fragment source aetitle \<longleftrightarrow> aetitle \<in> set (comma_tokens source)"
proof -
  from assms have d: "CHR ''.'' \<notin> set aetitle" and c: "CHR '','' \<notin> set aetitle"
    by (auto simp: plain_title_def list_all_iff)
  have "\<And>t. matches_from aetitle t \<longleftrightarrow> hd (comma_tokens t) = aetitle"
    using matches_from_literal[OF d] first_token_iff[OF c] by simp
  then have "regexp_like_fragment source aetitle \<longleftrightarrow>
             aetitle \<in> set (map (\<lambda>u. hd (comma_tokens u)) (source # after_commas source))"
    unfolding regexp_like_fragment_def list_ex_iff by auto
  then show ?thesis by (simp only: comma_tokens_starts[symmetric])
qed

lemma where_clause_plain_title:
  assumes "plain_title aetitle"
  shows "where_clause w aetitle r \<longleftrightarrow>
           (\<exists>source. AETitle r = Str source \<and> source \<noteq> [] \<and>
              aetitle \<in> set (comma_tokens source))"
proof -
  from assms have "\<not> list_ex regex_special aetitle"
    by (auto simp: plain_title_def list_all_iff list_ex_iff)
  then show ?thesis
    using plain_title_matches_whole_token[OF assms]
    by (cases "AETitle r") (auto simp: where_clause_def)
qed

text \<open>The two lists of the specification: \<open>AE1\<close> matches \<open>AE1,AE2\<close> and not \<open>AE10,AE2\<close>.\<close>

lemma title_AE1_examples:
  "regexp_like_fragment ''AE1,AE2'' ''AE1'' \<and> \<not> regexp_like_fragment ''AE10,AE2'' ''AE1''"
  by code_simp

subsection \<open>C8\<close>

text \<open>
  C8 asks that the query match a row exactly when the requestor's title is a whole token
  of the row's comma-separated title list. The title is pasted into the pattern without
  escaping, so a title with a period or a comma matches lists of which it is no token:
  on the view that holds the one row with the list \<open>AE1,AE2\<close>, the query for the title
  \<open>AE.\<close> returns that row, and so does the WHERE clause for the title \<open>AE1,AE2\<close>, while
  the tokens of the list are \<open>AE1\<close> and \<open>AE2\<close>.
\<close>

theorem title_pattern_matches_other_token:
  "where_clause (healthy_db [row_42]) ''AE.'' row_42 \<and>
   AETitle row_42 = Str ''AE1,AE2'' \<and>
   comma_tokens ''AE1,AE2'' = [''AE1'', ''AE2''] \<and>
   ''AE.'' \<notin> set (comma_tokens ''AE1,AE2'') \<and>
   fst (get_worklist_from_db (healthy_db [row_42]) ''AE.'') = Inr [row_42] \<and>
   where_clause (healthy_db [row_42]) ''AE1,AE2'' row_42 \<and>
   ''AE1,AE2'' \<notin> set (comma_tokens ''AE1,AE2'')"
  by code_simp

section \<open>The Find handler\<close>

subsection \<open>C4\<close>

text \<open>
  C4. When the query returns no row, the Find handler returns exactly one response: the
  success status with no dataset. No response is tagged pending, and the success status
  is none of the failure codes.
\<close>

theorem find_no_rows:
  assumes "fst (get_worklist_from_db w ae) = Inr []"
  shows "\<exists>responses. handle_find w ae = Inr responses \<and>
           responses = [(STATUS_SUCCESS, None)] \<and>
           length responses = 1 \<and>
           \<not> list_ex (\<lambda>response. fst response = STATUS_PENDING) responses \<and>
           STATUS_SUCCESS \<notin> set [Failed_Unable_to_understand, Failed_Out_of_Resources,
                                   Failed_Unable_to_process]"
  using assms
  by (simp add: handle_find_def STATUS_SUCCESS_def STATUS_PENDING_def
      Failed_Unable_to_understand_def Failed_Out_of_Resources_def Failed_Unable_to_process_def)

theorem find_no_rows_witness:
  "handle_find (healthy_db [row_42]) ''AE9'' = Inr [(STATUS_SUCCESS, None)]"
proof -
  have "select_worklist (healthy_db [row_42]) ''AE9'' = []" by code_simp
  then have "fst (get_worklist_from_db (healthy_db [row_42]) ''AE9'') = Inr []"
    by (simp add: get_worklist_result db_call_raises_def healthy_db_def)
  from find_no_rows[OF this] show ?thesis by simp
qed

subsection \<open>The loop\<close>

lemma find_loop_ok:
  "list_all well_formed_row rows \<Longrightarrow>
     find_loop rows responses =
       Inr (responses @ map (\<lambda>r. (STATUS_PENDING, Some (projr (build r)))) rows)"
proof (induction rows arbitrary: responses)
  case Nil
  show ?case by simp
next
  case (Cons r rows)
  from Cons.prems have "\<not> isl (build r)" by (simp add: build_ok_iff)
  then obtain ds where b: "build r = Inr ds" by (cases "build r") auto
  from Cons.prems have "list_all well_formed_row rows" by simp
  from Cons.IH[OF this] b show ?case by simp
qed

text \<open>One row that is not well formed makes the whole loop raise: no response is
  returned for any row.\<close>

lemma find_loop_raises:
  "\<not> list_all well_formed_row rows \<Longrightarrow> isl (find_loop rows responses)"
proof (induction rows arbitrary: responses)
  case Nil
  then show ?case by simp
next
  case (Cons r rows)
  then show ?case by (cases "build r") (auto simp: build_ok_iff[symmetric])
qed

lemma engine_find_pending:
  "engine_find (map (\<lambda>r. (STATUS_PENDING, f r)) rows) =
     map (\<lambda>r. (STATUS_PENDING, f r)) rows @ [(STATUS_SUCCESS, None)]"
  by (induction rows) simp_all

subsection \<open>C5\<close>

text \<open>
  C5, as the code has it. When the query returns one or more rows and every one of them
  is well formed (the patient name and the hour are strings, the birth date and the
  appointment date are datetimes, the text of the patient identifier holds no
  backslash, the physician's name is a string or counts as false), the Find handler
  returns exactly one response per row, each the dataset built from that row and tagged
  pending, in the order of the rows of the query; the engine sends them on and
  concludes with a final success status after the last one.
\<close>

theorem find_rows_pending_in_order:
  assumes "fst (get_worklist_from_db w ae) = Inr rows"
    and "rows \<noteq> []"
    and "list_all well_formed_row rows"
  shows "handle_find w ae = Inr (map (\<lambda>r. (STATUS_PENDING, Some (projr (build r)))) rows) \<and>
         engine_find (map (\<lambda>r. (STATUS_PENDING, Some (projr (build r)))) rows) =
           map (\<lambda>r. (STATUS_PENDING, Some (projr (build r)))) rows @ [(STATUS_SUCCESS, None)]"
  using assms by (simp add: handle_find_def find_loop_ok engine_find_pending)

theorem find_rows_pending_in_order_witness:
  "handle_find (healthy_db [row_42, row_43]) ''AE1'' =
     Inr [(STATUS_PENDING, Some (projr (build row_42))),
          (STATUS_PENDING, Some (projr (build row_43)))] \<and>
   engine_find [(STATUS_PENDING, Some (projr (build row_42))),
                (STATUS_PENDING, Some (projr (build row_43)))] =
     [(STATUS_PENDING, Some (projr (build row_42))), (STATUS_PENDING, Some (projr (build row_43))),
      (STATUS_SUCCESS, None)]"
proof -
  have s: "select_worklist (healthy_db [row_42, row_43]) ''AE1'' = [row_42, row_43]" by code_simp
  have q: "fst (get_worklist_from_db (healthy_db [row_42, row_43]) ''AE1'') = Inr [row_42, row_43]"
    by (simp add: get_worklist_result db_call_raises_def healthy_db_def s[unfolded healthy_db_def])
  have ne: "[row_42, row_43] \<noteq> []" by simp
  have ok: "list_all well_formed_row [row_42, row_43]" by code_simp
  show ?thesis
    using find_rows_pending_in_order[OF q ne ok] by simp
qed

text \<open>A row whose patient name is NULL: the query returns it, and the handler raises
  instead of returning a response for it.\<close>

theorem find_malformed_row_counterexample:
  "fst (get_worklist_from_db (healthy_db [row_null_name]) ''AE1'') = Inr [row_null_name] \<and>
   handle_find (healthy_db [row_null_name]) ''AE1'' = Inl AttributeError"
  by code_simp

section \<open>The Store handler\<close>

subsection \<open>C1\<close>

text \<open>
  C1, as the code has it. When the association is established and the transfer returns
  a status dataset that is not empty and holds a Status element, the handler returns
  that dataset unchanged, whatever its code. When the transfer returns an empty status
  dataset, the handler returns 0xC001 (out of resources). When the association is not
  established, it returns 0xC000 (unable to understand). When a call of the try block
  raises, it returns 0xC002 (unable to process).
\<close>

theorem store_status_classification:
  "(forward_ae_raises w = None \<and> associate_result w = Inr True \<and>
      send_c_store_result w = Inr status \<and> status \<noteq> [] \<and> map_of status ''Status'' \<noteq> None \<longrightarrow>
        fst (handle_store w) = RetStatus status) \<and>
   (forward_ae_raises w = None \<and> associate_result w = Inr True \<and>
      send_c_store_result w = Inr [] \<longrightarrow>
        fst (handle_store w) = RetCode Failed_Out_of_Resources) \<and>
   (forward_ae_raises w = None \<and> associate_result w = Inr False \<longrightarrow>
        fst (handle_store w) = RetCode Failed_Unable_to_understand) \<and>
   (store_raises w \<longrightarrow> fst (handle_store w) = RetCode Failed_Unable_to_process)"
  by (auto simp: handle_store_def store_try_def store_raises_def Let_def
      split: option.splits sum.splits)

theorem store_status_classification_witness:
  "fst (handle_store (store_ok [(''Status'', 0xA700)])) = RetStatus [(''Status'', 0xA700)] \<and>
   fst (handle_store (store_ok [])) = RetCode Failed_Out_of_Resources \<and>
   fst (handle_store store_rejected) = RetCode Failed_Unable_to_understand \<and>
   fst (handle_store store_send_raises) = RetCode Failed_Unable_to_process"
proof -
  have a: "fst (handle_store (store_ok [(''Status'', 0xA700)])) = RetStatus [(''Status'', 0xA700)]"
    using store_status_classification[of "store_ok [(''Status'', 0xA700)]" "[(''Status'', 0xA700)]"]
    by (simp add: store_ok_def)
  have b: "fst (handle_store (store_ok [])) = RetCode Failed_Out_of_Resources"
    using store_status_classification[of "store_ok []"] by (simp add: store_ok_def)
  have c: "fst (handle_store store_rejected) = RetCode Failed_Unable_to_understand"
    using store_status_classification[of store_rejected]
    by (simp add: store_ok_def store_rejected_def)
  have d: "fst (handle_store store_send_raises) = RetCode Failed_Unable_to_process"
    using store_status_classification[of store_send_raises]
    by (simp add: store_ok_def store_send_raises_def store_raises_def)
  from a b c d show ?thesis by simp
qed

text \<open>An association that is not established gives the code for "unable to understand",
  not the one for a processing failure; an exception gives the code for a processing
  failure, not the one for "unable to understand".\<close>

theorem store_not_established_counterexample:
  "fst (handle_store store_rejected) = RetCode Failed_Unable_to_understand \<and>
   fst (handle_store store_rejected) \<noteq> RetCode Failed_Unable_to_process \<and>
   fst (handle_store store_send_raises) = RetCode Failed_Unable_to_process \<and>
   fst (handle_store store_send_raises) \<noteq> RetCode Failed_Unable_to_understand"
  by (simp add: handle_store_def store_try_def store_rejected_def store_send_raises_def
      store_ok_def Failed_Unable_to_understand_def Failed_Unable_to_process_def)

subsection \<open>C2\<close>

text \<open>The association is released exactly when the transfer returns.\<close>

lemma store_released_iff:
  "AssocReleased \<in> set (snd (handle_store w)) \<longleftrightarrow>
     forward_ae_raises w = None \<and> associate_result w = Inr True \<and>
     \<not> isl (send_c_store_result w)"
  by (auto simp: handle_store_def store_try_def Let_def split: option.splits sum.splits)

text \<open>
  C2 asks that every resource be released on every exit path. The query does so (see
  \<open>db_resources_released\<close>). The Store handler does not: when the association is
  established and the transfer raises, the handler returns 0xC002 and the association
  is never released.
\<close>

theorem store_exception_leaves_association_open:
  "handle_store store_send_raises =
     (RetCode Failed_Unable_to_process, [AssocEstablished, FileMetaAdded]) \<and>
   AssocEstablished \<in> set (snd (handle_store store_send_raises)) \<and>
   AssocReleased \<notin> set (snd (handle_store store_send_raises))"
  by (simp add: handle_store_def store_try_def store_send_raises_def store_ok_def)

end
